theory Spec2Isabelle
  imports Complex_Main
begin

section \<open>Tensor elements: IEEE special values over exact finite arithmetic\<close>

text \<open>
  A tensor element is a floating-point number. The model keeps the three special
  values of IEEE-754 (NaN and the two infinities) with the rules torch applies to them,
  and computes on finite values exactly, in the reals: rounding, overflow and underflow
  of finite values are outside the model, and so is the sign of zero.
\<close>

datatype fl = NaN | NInf | PInf | Fin real

fun isnan :: "fl \<Rightarrow> bool" where
  "isnan NaN = True"
| "isnan _ = False"

fun fneg :: "fl \<Rightarrow> fl" where
  "fneg NaN = NaN"
| "fneg NInf = PInf"
| "fneg PInf = NInf"
| "fneg (Fin x) = Fin (- x)"

fun fabs :: "fl \<Rightarrow> fl" where
  "fabs NaN = NaN"
| "fabs NInf = PInf"
| "fabs PInf = PInf"
| "fabs (Fin x) = Fin \<bar>x\<bar>"

text \<open>Comparisons: every comparison with NaN is false.\<close>

fun flt :: "fl \<Rightarrow> fl \<Rightarrow> bool" where
  "flt NaN _ = False"
| "flt _ NaN = False"
| "flt _ NInf = False"
| "flt NInf _ = True"
| "flt PInf _ = False"
| "flt (Fin x) PInf = True"
| "flt (Fin x) (Fin y) = (x < y)"

fun fle :: "fl \<Rightarrow> fl \<Rightarrow> bool" where
  "fle NaN _ = False"
| "fle _ NaN = False"
| "fle NInf _ = True"
| "fle _ PInf = True"
| "fle PInf _ = False"
| "fle (Fin x) NInf = False"
| "fle (Fin x) (Fin y) = (x \<le> y)"

definition fgt :: "fl \<Rightarrow> fl \<Rightarrow> bool" where
  "fgt a b = flt b a"

definition fge :: "fl \<Rightarrow> fl \<Rightarrow> bool" where
  "fge a b = fle b a"

fun fadd :: "fl \<Rightarrow> fl \<Rightarrow> fl" where
  "fadd NaN _ = NaN"
| "fadd _ NaN = NaN"
| "fadd PInf NInf = NaN"
| "fadd NInf PInf = NaN"
| "fadd PInf _ = PInf"
| "fadd _ PInf = PInf"
| "fadd NInf _ = NInf"
| "fadd _ NInf = NInf"
| "fadd (Fin x) (Fin y) = Fin (x + y)"

definition fsub :: "fl \<Rightarrow> fl \<Rightarrow> fl" where
  "fsub a b = fadd a (fneg b)"

fun fmul :: "fl \<Rightarrow> fl \<Rightarrow> fl" where
  "fmul NaN _ = NaN"
| "fmul _ NaN = NaN"
| "fmul PInf PInf = PInf"
| "fmul PInf NInf = NInf"
| "fmul NInf PInf = NInf"
| "fmul NInf NInf = PInf"
| "fmul PInf (Fin y) = (if y = 0 then NaN else if 0 < y then PInf else NInf)"
| "fmul NInf (Fin y) = (if y = 0 then NaN else if 0 < y then NInf else PInf)"
| "fmul (Fin x) PInf = (if x = 0 then NaN else if 0 < x then PInf else NInf)"
| "fmul (Fin x) NInf = (if x = 0 then NaN else if 0 < x then NInf else PInf)"
| "fmul (Fin x) (Fin y) = Fin (x * y)"

text \<open>
  Division: a finite value over an infinity is zero, an infinity over an infinity and
  zero over zero are NaN, and a non-zero value over zero is the infinity of its sign
  (the zero divisors of this program are results of \<open>exp\<close>, so they are positive
  zeros).
\<close>

fun fdiv :: "fl \<Rightarrow> fl \<Rightarrow> fl" where
  "fdiv NaN _ = NaN"
| "fdiv _ NaN = NaN"
| "fdiv PInf (Fin y) = (if y < 0 then NInf else PInf)"
| "fdiv NInf (Fin y) = (if y < 0 then PInf else NInf)"
| "fdiv PInf _ = NaN"
| "fdiv NInf _ = NaN"
| "fdiv (Fin x) PInf = Fin 0"
| "fdiv (Fin x) NInf = Fin 0"
| "fdiv (Fin x) (Fin y) =
     (if y = 0 then (if x = 0 then NaN else if 0 < x then PInf else NInf)
      else Fin (x / y))"

text \<open>\<open>torch.max\<close> of two tensors, elementwise: NaN propagates.\<close>

fun fmax :: "fl \<Rightarrow> fl \<Rightarrow> fl" where
  "fmax NaN _ = NaN"
| "fmax _ NaN = NaN"
| "fmax a b = (if flt a b then b else a)"

text \<open>\<open>torch.log\<close>, \<open>torch.exp\<close>, \<open>torch.log1p\<close>.\<close>

fun flog :: "fl \<Rightarrow> fl" where
  "flog NaN = NaN"
| "flog NInf = NaN"
| "flog PInf = PInf"
| "flog (Fin x) = (if x < 0 then NaN else if x = 0 then NInf else Fin (ln x))"

fun fexp :: "fl \<Rightarrow> fl" where
  "fexp NaN = NaN"
| "fexp NInf = Fin 0"
| "fexp PInf = PInf"
| "fexp (Fin x) = Fin (exp x)"

fun flog1p :: "fl \<Rightarrow> fl" where
  "flog1p NaN = NaN"
| "flog1p NInf = NaN"
| "flog1p PInf = PInf"
| "flog1p (Fin x) =
     (if x < - 1 then NaN else if x = - 1 then NInf else Fin (ln (1 + x)))"

text \<open>Sum of the elements of a tensor (\<open>Tensor.sum\<close>), left to right from zero.\<close>

definition fsum :: "fl list \<Rightarrow> fl" where
  "fsum xs = foldl fadd (Fin 0) xs"

section \<open>External collaborators\<close>

text \<open>
  The program calls four services that are not code of this repository: the CDF of the
  standard normal distribution (\<open>torch.distributions.Normal.cdf\<close>), the stable
  logarithm of that CDF (\<open>gpytorch.log_normal_cdf\<close>), least squares
  (\<open>numpy.linalg.lstsq\<close>) and one optimisation step (\<open>loss.backward()\<close>,
  \<open>optimizer.step()\<close>, \<open>scheduler.step()\<close>). They are parameters of the model.
  \<open>Phi\<close> and \<open>logPhi\<close> give the two normal-CDF services on finite arguments; their
  values at the special values are fixed below. The log-CDF of a finite argument is
  a tensor element like any other: where the floating-point result is out of range the
  service returns \<open>-inf\<close> or NaN, so \<open>logPhi\<close> returns an \<open>fl\<close>.
\<close>

type_synonym vec = "fl list"
type_synonym mat = "fl list list"

text \<open>
  The censored regression model \<open>TLR\<close>: the data, the censoring indicator, the two
  thresholds and the trainable parameters \<open>beta\<close> (one row per batch element) and
  \<open>sigma\<close> (one entry per batch element).
\<close>

record tlr =
  y :: mat
  X :: "mat list"
  z :: mat
  l_thred :: fl
  r_thred :: fl
  beta :: mat
  sigma :: vec

text \<open>
  \<open>opt_init lr max_iter\<close> is the state of \<open>Adam\<close> and \<open>CosineAnnealingLR\<close>
  as constructed; \<open>opt_step\<close> is \<open>loss.backward(); optimizer.step(); scheduler.step()\<close>,
  which reads the model and returns the updated optimiser state, \<open>beta\<close> and \<open>sigma\<close>.
\<close>

record 'o ext =
  Phi :: "real \<Rightarrow> real"
  logPhi :: "real \<Rightarrow> fl"
  lstsq :: "mat \<Rightarrow> vec \<Rightarrow> vec"
  opt_init :: "fl \<Rightarrow> nat \<Rightarrow> 'o"
  opt_step :: "'o \<Rightarrow> tlr \<Rightarrow> 'o \<times> mat \<times> vec"

text \<open>\<open>self.snd.cdf\<close>: 0.5 * (1 + erf(x / sqrt 2)), so 0 at \<open>-inf\<close> and 1 at \<open>+inf\<close>.\<close>

fun cdf :: "(real \<Rightarrow> real) \<Rightarrow> fl \<Rightarrow> fl" where
  "cdf P NaN = NaN"
| "cdf P NInf = Fin 0"
| "cdf P PInf = Fin 1"
| "cdf P (Fin x) = Fin (P x)"

text \<open>
  Modelled from the spec: \<open>gp.log_normal_cdf\<close>, the log of the standard normal CDF.
  At the infinities it is the log of 0 and of 1; at a finite argument it is what the
  service returns there, a finite number or, out of the floating-point range, a
  special value.
\<close>

fun log_normal_cdf :: "(real \<Rightarrow> fl) \<Rightarrow> fl \<Rightarrow> fl" where
  "log_normal_cdf L NaN = NaN"
| "log_normal_cdf L NInf = NInf"
| "log_normal_cdf L PInf = Fin 0"
| "log_normal_cdf L (Fin x) = L x"

text \<open>
  \<open>self.snd.log_prob\<close> for location 0 and scale 1:
  \<open>-(x ** 2) / 2 - log(1) - log(sqrt(2 * pi))\<close>.
\<close>

definition snd_log_prob :: "fl \<Rightarrow> fl" where
  "snd_log_prob x =
     fsub (fsub (fdiv (fneg (fmul x x)) (Fin 2)) (Fin 0)) (Fin (ln (sqrt (2 * pi))))"

section \<open>TruncatedNormal\<close>

text \<open>
  A masked assignment \<open>res[mask] = new[mask]\<close>: the elements the mask selects take
  the new value, the others keep theirs.
\<close>

definition assign :: "bool list \<Rightarrow> 'a list \<Rightarrow> 'a list \<Rightarrow> 'a list" where
  "assign msk new res = map (\<lambda>(m, n, r). if m then n else r) (zip msk (zip new res))"

text \<open>Lines 17 to 24 of \<open>get_logdelta\<close>: \<open>res\<close> after the direct computation.\<close>

definition direct_stage :: "(real \<Rightarrow> real) \<Rightarrow> vec \<Rightarrow> vec \<Rightarrow> vec" where
  "direct_stage P a b =
     (let res = map (\<lambda>_. NaN) a;
          ids1 = map2 (\<lambda>x y. fle x (Fin 30) \<and> fge y (Fin (- 30))) a b;
          ids11 = map2 (\<lambda>i x. i \<and> fgt x (Fin 0)) ids1 a;
          ids12 = map2 (\<lambda>i x. i \<and> fle x (Fin 0)) ids1 a;
          res = assign ids11 (map2 (\<lambda>x y. fsub (cdf P (fneg x)) (cdf P (fneg y))) a b) res;
          res = assign ids12 (map2 (\<lambda>x y. fsub (cdf P y) (cdf P x)) a b) res;
          res = assign (map (\<lambda>r. \<not> isnan r) res) (map (\<lambda>r. fmax r (Fin 0)) res) res;
          res = assign (map (\<lambda>r. fgt r (Fin 0)) res) (map flog res) res
      in res)"

text \<open>Lines 26 and 27: the mask of the upper-tail assignment.\<close>

definition ids2_mask :: "vec \<Rightarrow> vec \<Rightarrow> vec \<Rightarrow> bool list" where
  "ids2_mask a b res =
     map (\<lambda>(r, x, y). fle r (Fin 0) \<and> (flt y (Fin 0) \<or> fge (fabs x) (fabs y)))
       (zip res (zip a b))"

text \<open>The right-hand sides of lines 28-29 and of lines 32-33, for one element.\<close>

definition upper_tail :: "(real \<Rightarrow> fl) \<Rightarrow> fl \<Rightarrow> fl \<Rightarrow> fl" where
  "upper_tail L u v =
     fadd (log_normal_cdf L (fneg v))
       (flog1p (fneg (fexp (fsub (log_normal_cdf L (fneg u)) (log_normal_cdf L (fneg v))))))"

definition lower_tail :: "(real \<Rightarrow> fl) \<Rightarrow> fl \<Rightarrow> fl \<Rightarrow> fl" where
  "lower_tail L u v =
     fadd (log_normal_cdf L (fneg u))
       (flog1p (fneg (fexp (fsub (log_normal_cdf L (fneg v)) (log_normal_cdf L (fneg u))))))"

definition get_logdelta :: "'o ext \<Rightarrow> vec \<Rightarrow> vec \<Rightarrow> vec" where
  "get_logdelta e a b =
     (let res = direct_stage (Phi e) a b;
          ids2 = ids2_mask a b res;
          res = assign ids2 (map2 (upper_tail (logPhi e)) a b) res;
          ids3 = map Not ids2;
          res = assign ids3 (map2 (lower_tail (logPhi e)) a b) res
      in res)"

text \<open>\<open>log_prob\<close>, on tensors of one shape.\<close>

definition log_prob :: "'o ext \<Rightarrow> vec \<Rightarrow> vec \<Rightarrow> vec \<Rightarrow> vec \<Rightarrow> vec \<Rightarrow> vec" where
  "log_prob e val a b loc scale =
     (let val_standard = map2 (\<lambda>(v, l) s. fdiv (fsub v l) s) (zip val loc) scale;
          res = map (\<lambda>(p, d, s). fsub (fsub p d) (flog s))
                  (zip (map snd_log_prob val_standard) (zip (get_logdelta e a b) scale));
          res = assign (map (\<lambda>(v, x, y). flt v x \<or> fgt v y) (zip val_standard (zip a b)))
                  (map (\<lambda>_. NInf) res) res
      in res)"

section \<open>TLR\<close>

text \<open>
  What the source leaves in \<open>init_sigma\<close>: a numpy float (the residual variance) or
  the Python integer literal of the fallback.
\<close>

datatype pynum = PyInt int | NpFloat fl

fun pynum_is_int :: "pynum \<Rightarrow> bool" where
  "pynum_is_int (PyInt _) = True"
| "pynum_is_int (NpFloat _) = False"

fun pynum_float :: "pynum \<Rightarrow> fl" where
  "pynum_float (PyInt i) = Fin (real_of_int i)"
| "pynum_float (NpFloat x) = x"

datatype error = RequiresGradDtype

text \<open>
  \<open>nn.Parameter(torch.tensor(init_sigma))\<close>: \<open>torch.tensor\<close> infers an integer
  dtype for a non-empty list of Python integers, and \<open>nn.Parameter\<close> raises a
  RuntimeError for it (only tensors of floating point dtype can require gradients).
  One float in the list makes the tensor a floating-point one.
\<close>

definition sigma_parameter :: "pynum list \<Rightarrow> error + vec" where
  "sigma_parameter init_sigma =
     (if init_sigma \<noteq> [] \<and> list_all pynum_is_int init_sigma then Inl RequiresGradDtype
      else Inr (map pynum_float init_sigma))"

text \<open>Equality of tensor elements (\<open>==\<close>): false on NaN.\<close>

fun feq :: "fl \<Rightarrow> fl \<Rightarrow> bool" where
  "feq NaN _ = False"
| "feq _ NaN = False"
| "feq a b = (a = b)"

definition dot :: "vec \<Rightarrow> vec \<Rightarrow> fl" where
  "dot u v = fsum (map2 fmul u v)"

definition matvec :: "mat \<Rightarrow> vec \<Rightarrow> vec" where
  "matvec M v = map (\<lambda>row. dot row v) M"

text \<open>The rows that a mask of zeros and ones selects (\<open>yy[zz == 1]\<close>).\<close>

definition select :: "int list \<Rightarrow> 'a list \<Rightarrow> 'a list" where
  "select zz xs = map snd (filter (\<lambda>(m, x). m = 1) (zip zz xs))"

text \<open>STEP 1 of the constructor: the censoring indicator.\<close>

definition indicator :: "mat \<Rightarrow> fl option \<Rightarrow> fl option \<Rightarrow> mat" where
  "indicator ys l r =
     (let z0 = map (map (\<lambda>_. Fin 0)) ys;
          z1 = (case l of None \<Rightarrow> z0
                | Some lt \<Rightarrow> map2 (\<lambda>zr yr. assign (map (\<lambda>v. fle v lt) yr) (map (\<lambda>_. Fin (- 1)) yr) zr) z0 ys);
          z2 = (case r of None \<Rightarrow> z1
                | Some rt \<Rightarrow> map2 (\<lambda>zr yr. assign (map (\<lambda>v. fge v rt) yr) (map (\<lambda>_. Fin 1) yr) zr) z1 ys)
      in z2)"

text \<open>The body of the loop of STEP 2, for one batch element.\<close>

definition init_element :: "'o ext \<Rightarrow> vec \<Rightarrow> mat \<Rightarrow> int list \<Rightarrow> vec \<times> pynum" where
  "init_element e yy0 XX0 zz =
     (let yy = select zz yy0;
          XX = select zz XX0;
          bb = lstsq e XX yy;
          rr = map2 fsub yy (matvec XX bb);
          ss = (if length yy \<noteq> 0 then NpFloat (fdiv (dot rr rr) (Fin (real (length yy))))
                else PyInt 1)
      in (bb, ss))"

definition TLR_init :: "'o ext \<Rightarrow> mat \<Rightarrow> mat list \<Rightarrow> fl option \<Rightarrow> fl option \<Rightarrow> error + tlr" where
  "TLR_init e ys Xs l_opt r_opt =
     (let zs = indicator ys l_opt r_opt;
          mid_z = map (map (\<lambda>v. if feq v (Fin 0) then 1 else (0::int))) zs;
          lt = (case l_opt of None \<Rightarrow> NInf | Some v \<Rightarrow> v);
          rt = (case r_opt of None \<Rightarrow> Fin 100 | Some v \<Rightarrow> v);
          inits = map (\<lambda>(yy, XX, zz). init_element e yy XX zz) (zip ys (zip Xs mid_z));
          init_beta = map fst inits;
          init_sigma = map snd inits
      in case sigma_parameter init_sigma of
           Inl err \<Rightarrow> Inl err
         | Inr sg \<Rightarrow>
             Inr \<lparr>y = ys, X = Xs, z = zs, l_thred = lt, r_thred = rt,
                  beta = init_beta, sigma = sg\<rparr>)"

text \<open>\<open>X.shape[1]\<close>, the number of observations of a batch element.\<close>

definition shape1 :: "'a list list \<Rightarrow> nat" where
  "shape1 T = (case T of [] \<Rightarrow> 0 | r # _ \<Rightarrow> length r)"

text \<open>
  A row of one element broadcast to \<open>k\<close> elements (a row of another length is not
  broadcast by torch; the model is used on rows of one element only).
\<close>

definition broadcast :: "nat \<Rightarrow> 'a list \<Rightarrow> 'a list" where
  "broadcast k r = concat (replicate k r)"

text \<open>
  Lines 69 to 72 of \<open>forward\<close>: the log density of every observation, one row per
  batch element. \<open>Xb\<close> is the product of line 69 before \<open>.squeeze()\<close>, of shape
  batch times observations. \<open>.squeeze()\<close> drops every dimension of size 1: with two
  or more observations per element (or a batch of one element) the operations of lines
  71 and 72 stay elementwise, row by row. With one observation per element and a batch
  of two or more, \<open>Xb\<close> has the batch as its only dimension and is broadcast against
  the one-column tensors \<open>y\<close> and \<open>exp_sigma\<close>: row \<open>i\<close> of the result pairs the
  observation and the scale of element \<open>i\<close> with the fitted value of every element.
\<close>

definition log_probs :: "'o ext \<Rightarrow> tlr \<Rightarrow> mat" where
  "log_probs e m =
     (let Xb = map2 matvec (X m) (beta m);
          exp_sigma = map (\<lambda>s. replicate (shape1 (X m)) (fexp s)) (sigma m)
      in if shape1 (X m) = 1 \<and> 2 \<le> length (X m) then
           (let Xb1 = concat Xb; k = length Xb1
            in map (\<lambda>(yr, er).
                   log_prob e (broadcast k yr)
                     (map2 (\<lambda>p s. fdiv (fsub (l_thred m) p) s) Xb1 (broadcast k er))
                     (map2 (\<lambda>p s. fdiv (fsub (r_thred m) p) s) Xb1 (broadcast k er))
                     Xb1 (broadcast k er))
                 (zip (y m) exp_sigma))
         else
           (let l' = map2 (map2 (\<lambda>p s. fdiv (fsub (l_thred m) p) s)) Xb exp_sigma;
                r' = map2 (map2 (\<lambda>p s. fdiv (fsub (r_thred m) p) s)) Xb exp_sigma
            in map (\<lambda>(v, a, b, loc, scale). log_prob e v a b loc scale)
                 (zip (y m) (zip l' (zip r' (zip Xb exp_sigma))))))"

text \<open>Line 73: \<open>torch.sum(log_prob, dim=-1)\<close>.\<close>

definition forward :: "'o ext \<Rightarrow> tlr \<Rightarrow> vec" where
  "forward e m = map fsum (log_probs e m)"

section \<open>The estimation driver\<close>

record 'o driver =
  solver :: tlr
  opt :: 'o
  best_beta :: "mat option"
  best_loss :: fl
  prev_loss :: fl

text \<open>Line 84: \<open>loss = -1 * solver().sum() / y.shape[0]\<close>.\<close>

definition loss_of :: "'o ext \<Rightarrow> tlr \<Rightarrow> fl" where
  "loss_of e m = fdiv (fmul (Fin (- 1)) (fsum (forward e m))) (Fin (real (length (y m))))"

text \<open>
  Lines 83 to 89 of one iteration: the loss at the current parameters, the optimiser
  step, and the record of the best loss with the parameters as they are after the step.
\<close>

definition iteration :: "'o ext \<Rightarrow> 'o driver \<Rightarrow> fl \<times> 'o driver" where
  "iteration e s =
     (let loss = loss_of e (solver s);
          (o', b', sg') = opt_step e (opt s) (solver s);
          s1 = s\<lparr>solver := (solver s)\<lparr>beta := b', sigma := sg'\<rparr>, opt := o'\<rparr>;
          s2 = (if flt loss (best_loss s1)
                then s1\<lparr>best_beta := Some (beta (solver s1)), best_loss := loss\<rparr>
                else s1)
      in (loss, s2))"

text \<open>
  The loop over \<open>range(max_iter)\<close>: for each iteration it runs, the loss of the
  iteration and the state after it. Lines 90 to 93 stop the loop or record the loss as
  the previous one.
\<close>

fun run :: "'o ext \<Rightarrow> fl \<Rightarrow> nat \<Rightarrow> 'o driver \<Rightarrow> (fl \<times> 'o driver) list" where
  "run e tol 0 s = []"
| "run e tol (Suc n) s =
     (let (loss, s2) = iteration e s
      in if fle (fabs (fsub loss (prev_loss s2))) tol then [(loss, s2)]
         else (let s3 = s2\<lparr>prev_loss := loss\<rparr> in (loss, s3) # run e tol n s3))"

definition initial :: "'o ext \<Rightarrow> tlr \<Rightarrow> fl \<Rightarrow> nat \<Rightarrow> 'o driver" where
  "initial e m lr max_iter =
     \<lparr>solver = m, opt = opt_init e lr max_iter, best_beta = None,
      best_loss = PInf, prev_loss = PInf\<rparr>"

text \<open>
  \<open>torch_TLR\<close> up to its return: the state before the loop and what the loop did,
  or the error of the constructor.
\<close>

definition torch_TLR_trace ::
  "'o ext \<Rightarrow> mat \<Rightarrow> mat list \<Rightarrow> fl \<Rightarrow> nat \<Rightarrow> fl \<Rightarrow>
   error + ('o driver \<times> (fl \<times> 'o driver) list)" where
  "torch_TLR_trace e ys Xs lr max_iter tol =
     (case TLR_init e ys Xs (Some (Fin 0)) None of
        Inl err \<Rightarrow> Inl err
      | Inr m \<Rightarrow>
          (let s0 = initial e m lr max_iter in Inr (s0, run e tol max_iter s0)))"

text \<open>The states of a run in order: the one before the loop, then one per iteration.\<close>

definition states :: "'o driver \<times> (fl \<times> 'o driver) list \<Rightarrow> 'o driver list" where
  "states t = fst t # map snd (snd t)"

definition torch_TLR ::
  "'o ext \<Rightarrow> mat \<Rightarrow> mat list \<Rightarrow> fl \<Rightarrow> nat \<Rightarrow> fl \<Rightarrow> error + mat option" where
  "torch_TLR e ys Xs lr max_iter tol =
     (case torch_TLR_trace e ys Xs lr max_iter tol of
        Inl err \<Rightarrow> Inl err
      | Inr t \<Rightarrow> Inr (best_beta (last (states t))))"

section \<open>Elementwise reading of the masked assignments\<close>

text \<open>
  What \<open>direct_stage\<close> leaves in one element, and whether \<open>ids2\<close> selects it; the
  lemmas below show that the tensor code agrees with them at every index.
\<close>

definition direct_elem :: "(real \<Rightarrow> real) \<Rightarrow> fl \<Rightarrow> fl \<Rightarrow> fl" where
  "direct_elem P u v =
     (let i1 = (fle u (Fin 30) \<and> fge v (Fin (- 30)));
          r0 = (if i1 \<and> fgt u (Fin 0) then fsub (cdf P (fneg u)) (cdf P (fneg v)) else NaN);
          r1 = (if i1 \<and> fle u (Fin 0) then fsub (cdf P v) (cdf P u) else r0);
          r2 = (if \<not> isnan r1 then fmax r1 (Fin 0) else r1)
      in if fgt r2 (Fin 0) then flog r2 else r2)"

definition in_ids2 :: "(real \<Rightarrow> real) \<Rightarrow> fl \<Rightarrow> fl \<Rightarrow> bool" where
  "in_ids2 P u v =
     (fle (direct_elem P u v) (Fin 0) \<and> (flt v (Fin 0) \<or> fge (fabs u) (fabs v)))"

section \<open>An instance of the external collaborators\<close>

text \<open>
  To run the model on concrete inputs the collaborators need values. The instance below
  takes for \<open>Phi\<close> the CDF of a symmetric distribution with rational values at
  rational points (it agrees with the normal CDF at 0), for \<open>logPhi\<close> its logarithm
  (finite everywhere),
  for \<open>lstsq\<close> least squares with a single regressor, and an optimisation step that
  leaves the parameters where they are.
\<close>

definition Phi_ref :: "real \<Rightarrow> real" where
  "Phi_ref t = 1 / 2 + t / (2 * (1 + \<bar>t\<bar>))"

definition lstsq_ref :: "mat \<Rightarrow> vec \<Rightarrow> vec" where
  "lstsq_ref XX yy =
     (let c = concat XX
      in if XX = [] \<or> dot c c = Fin 0 then [Fin 0] else [fdiv (dot c yy) (dot c c)])"

definition ext_ref :: "unit ext" where
  "ext_ref =
     \<lparr>Phi = Phi_ref, logPhi = (\<lambda>t. Fin (ln (Phi_ref t))), lstsq = lstsq_ref,
      opt_init = (\<lambda>lr n. ()), opt_step = (\<lambda>u m. (u, beta m, sigma m))\<rparr>"

text \<open>
  The same instance with a log-CDF that is out of range below \<open>- 10 ^ 155\<close>, as
  the double-precision value of the log-CDF is (it is about \<open>- x ^ 2 / 2\<close>).
\<close>

definition ext_ovf :: "unit ext" where
  "ext_ovf =
     ext_ref\<lparr>logPhi := (\<lambda>t. if t < - (10 ^ 155) then NInf else Fin (ln (Phi_ref t)))\<rparr>"

text \<open>
  The model that the constructor builds with this instance from two uncensored
  observations of one batch element, the driver's state before the loop, and a run of
  one iteration from it.
\<close>

definition m_ref :: tlr where
  "m_ref = \<lparr>y = [[Fin 1, Fin 1]], X = [[[Fin 1], [Fin 1]]], z = [[Fin 0, Fin 0]],
            l_thred = Fin 0, r_thred = Fin 100, beta = [[Fin 1]], sigma = [Fin 0]\<rparr>"

definition s_ref :: "unit driver" where
  "s_ref = initial ext_ref m_ref (Fin (1 / 10)) 1"

definition t_ref :: "unit driver \<times> (fl \<times> unit driver) list" where
  "t_ref = (s_ref, run ext_ref (Fin (1 / 100000)) 1 s_ref)"

section \<open>One iteration of the loop, as a relation\<close>

text \<open>
  \<open>follows e s p\<close>: the pair \<open>p\<close> of a loss and a state is what one iteration of
  the loop makes of the state \<open>s\<close>, whether or not the loop stops after it.
\<close>

definition follows :: "'o ext \<Rightarrow> 'o driver \<Rightarrow> fl \<times> 'o driver \<Rightarrow> bool" where
  "follows e s p =
     (fst p = loss_of e (solver s) \<and>
      (snd p = snd (iteration e s) \<or> snd p = (snd (iteration e s))\<lparr>prev_loss := fst p\<rparr>))"

section \<open>Masked assignments, index by index\<close>

lemma length_assign [simp]:
  "length (assign m new res) = min (length m) (min (length new) (length res))"
  by (simp add: assign_def)

lemma nth_assign:
  "i < length m \<Longrightarrow> i < length new \<Longrightarrow> i < length res \<Longrightarrow>
   assign m new res ! i = (if m ! i then new ! i else res ! i)"
  by (simp add: assign_def)

lemma length_direct_stage [simp]:
  "length a = length b \<Longrightarrow> length (direct_stage P a b) = length a"
  by (simp add: direct_stage_def Let_def)

lemma nth_direct_stage:
  "length a = length b \<Longrightarrow> i < length a \<Longrightarrow>
   direct_stage P a b ! i = direct_elem P (a ! i) (b ! i)"
  by (simp add: direct_stage_def direct_elem_def Let_def nth_assign)

lemma length_ids2_mask [simp]:
  "length (ids2_mask a b res) = min (length res) (min (length a) (length b))"
  by (simp add: ids2_mask_def)

lemma length_get_logdelta [simp]:
  "length a = length b \<Longrightarrow> length (get_logdelta e a b) = length a"
  by (simp add: get_logdelta_def Let_def)

lemma nth_ids2_mask:
  "length a = length b \<Longrightarrow> i < length a \<Longrightarrow>
   ids2_mask a b (direct_stage P a b) ! i = in_ids2 P (a ! i) (b ! i)"
  by (simp add: ids2_mask_def in_ids2_def nth_direct_stage)

text \<open>
  Whatever the direct computation left in an element, the result of \<open>get_logdelta\<close>
  there is the upper-tail formula when \<open>ids2\<close> selects the element and the lower-tail
  formula otherwise: \<open>ids3 = ~ids2\<close> selects every element that \<open>ids2\<close> does not.
\<close>

lemma nth_get_logdelta:
  assumes "length a = length b" and "i < length a"
  shows "get_logdelta e a b ! i =
     (if in_ids2 (Phi e) (a ! i) (b ! i) then upper_tail (logPhi e) (a ! i) (b ! i)
      else lower_tail (logPhi e) (a ! i) (b ! i))"
proof -
  define res where "res = direct_stage (Phi e) a b"
  define ids2 where "ids2 = ids2_mask a b res"
  have lr: "length res = length a"
    using assms by (simp add: res_def)
  have l2: "length ids2 = length a"
    using assms lr by (simp add: ids2_def)
  have n2: "ids2 ! i = in_ids2 (Phi e) (a ! i) (b ! i)"
    using assms by (simp add: ids2_def res_def nth_ids2_mask)
  have "get_logdelta e a b =
      assign (map Not ids2) (map2 (lower_tail (logPhi e)) a b)
        (assign ids2 (map2 (upper_tail (logPhi e)) a b) res)"
    by (simp add: get_logdelta_def Let_def res_def ids2_def)
  then show ?thesis
    using assms lr l2 n2 by (simp add: nth_assign)
qed

lemma direct_stage_single: "direct_stage P [u] [v] = [direct_elem P u v]"
proof -
  have "length (direct_stage P [u] [v]) = 1" by simp
  moreover have "direct_stage P [u] [v] ! 0 = direct_elem P u v"
    using nth_direct_stage [of "[u]" "[v]" 0 P] by simp
  ultimately show ?thesis
    by (cases "direct_stage P [u] [v]") auto
qed

lemma ids2_mask_single: "ids2_mask [u] [v] (direct_stage P [u] [v]) = [in_ids2 P u v]"
  by (simp add: direct_stage_single ids2_mask_def in_ids2_def)

lemma get_logdelta_single:
  "get_logdelta e [u] [v] =
     [if in_ids2 (Phi e) u v then upper_tail (logPhi e) u v else lower_tail (logPhi e) u v]"
proof -
  have "length (get_logdelta e [u] [v]) = 1" by simp
  moreover have "get_logdelta e [u] [v] ! 0 =
     (if in_ids2 (Phi e) u v then upper_tail (logPhi e) u v else lower_tail (logPhi e) u v)"
    using nth_get_logdelta [of "[u]" "[v]" 0 e] by simp
  ultimately show ?thesis
    by (cases "get_logdelta e [u] [v]") auto
qed

lemma Phi_ref_vals: "Phi_ref 0 = 1 / 2" "Phi_ref 1 = 3 / 4" "Phi_ref (- 1) = 1 / 4"
  by (simp_all add: Phi_ref_def)

lemma ext_ref_sel [simp]:
  "Phi ext_ref = Phi_ref" "logPhi ext_ref = (\<lambda>t. Fin (ln (Phi_ref t)))" "lstsq ext_ref = lstsq_ref"
  "opt_init ext_ref = (\<lambda>lr n. ())" "opt_step ext_ref = (\<lambda>u m. (u, beta m, sigma m))"
  by (simp_all add: ext_ref_def)

section \<open>The interval log-probability\<close>

text \<open>
  The interval from -1 to 0. The direct computation leaves the log of a probability
  there, which is at most 0, so \<open>ids2\<close> selects the element (\<open>|a| >= |b|\<close>), and the
  upper-tail formula is the log of \<open>Phi(-b) - Phi(-a)\<close>, a negative number.
\<close>

lemma get_logdelta_m1_0:
  assumes "Phi e 0 - Phi e (- 1) \<le> 1" and "flt (logPhi e 0) (logPhi e 1)"
  shows "get_logdelta e [Fin (- 1)] [Fin 0] = [NaN]"
proof -
  have "fle (direct_elem (Phi e) (Fin (- 1)) (Fin 0)) (Fin 0)"
    using assms(1) by (simp add: direct_elem_def fge_def fgt_def fsub_def Let_def)
  then have "in_ids2 (Phi e) (Fin (- 1)) (Fin 0)"
    by (simp add: in_ids2_def fge_def)
  moreover have "upper_tail (logPhi e) (Fin (- 1)) (Fin 0) = NaN"
    using assms(2) by (cases "logPhi e 0"; cases "logPhi e 1") (simp_all add: upper_tail_def fsub_def)
  ultimately show ?thesis
    by (simp add: get_logdelta_single)
qed

lemma not_in_ids2_0_1: "\<not> in_ids2 P (Fin 0) (Fin 1)"
  by (simp add: in_ids2_def fge_def)

text \<open>
  C1. The claim is that \<open>get_logdelta\<close> never returns NaN for bounds \<open>a \<le> b\<close>. On the
  bounds -1 and 0 the code returns NaN, for every normal-CDF service whose values
  there are ordered as those of a CDF are (\<open>Phi 0 - Phi (-1) \<le> 1\<close> and
  \<open>logPhi 0 < logPhi 1\<close>, as floating-point numbers).
\<close>

theorem get_logdelta_returns_nan:
  assumes "Phi e 0 - Phi e (- 1) \<le> 1" and "flt (logPhi e 0) (logPhi e 1)"
  shows "fle (Fin (- 1)) (Fin 0) \<and> get_logdelta e [Fin (- 1)] [Fin 0] = [NaN]"
  using get_logdelta_m1_0 [OF assms] by simp

theorem get_logdelta_returns_nan_witness:
  "Phi ext_ref 0 - Phi ext_ref (- 1) \<le> 1 \<and> flt (logPhi ext_ref 0) (logPhi ext_ref 1) \<and>
   get_logdelta ext_ref [Fin (- 1)] [Fin 0] = [NaN]"
  using get_logdelta_returns_nan [of ext_ref] by (simp add: Phi_ref_vals)

text \<open>
  C3. The claim is that \<open>get_logdelta\<close> returns 0 on the bounds \<open>-inf\<close> and \<open>+inf\<close>.
  The code returns NaN there, whatever the normal-CDF services are on finite
  arguments: the direct computation leaves \<open>log 1 = 0\<close>, \<open>ids2\<close> selects the element
  (\<open>0 <= 0\<close> and \<open>|a| >= |b|\<close>), and the upper-tail formula is
  \<open>-inf + log1p(-exp(0 - (-inf)))\<close>.
\<close>

theorem get_logdelta_whole_line:
  "direct_stage (Phi e) [NInf] [PInf] = [Fin 0] \<and> get_logdelta e [NInf] [PInf] = [NaN]"
proof -
  have d: "direct_elem (Phi e) NInf PInf = Fin 0"
    by (simp add: direct_elem_def fge_def fgt_def fsub_def Let_def)
  have "in_ids2 (Phi e) NInf PInf"
    by (simp add: in_ids2_def d fge_def)
  then show ?thesis
    by (simp add: direct_stage_single d get_logdelta_single upper_tail_def fsub_def)
qed

text \<open>
  C4. The claim is that an element whose direct computation gives a strictly positive
  probability keeps that result. On the bounds 0 and 1 the direct computation leaves
  the log of the positive probability \<open>Phi 1 - Phi 0\<close>; \<open>ids2\<close> does not select the
  element, so \<open>ids3 = ~ids2\<close> does, and the result is the lower-tail formula.
\<close>

theorem direct_result_overwritten:
  assumes "0 < Phi e 1 - Phi e 0"
  shows "direct_stage (Phi e) [Fin 0] [Fin 1] = [Fin (ln (Phi e 1 - Phi e 0))] \<and>
         map Not (ids2_mask [Fin 0] [Fin 1] (direct_stage (Phi e) [Fin 0] [Fin 1])) = [True] \<and>
         get_logdelta e [Fin 0] [Fin 1] = [lower_tail (logPhi e) (Fin 0) (Fin 1)]"
proof -
  have d: "direct_elem (Phi e) (Fin 0) (Fin 1) = Fin (ln (Phi e 1 - Phi e 0))"
    using assms by (simp add: direct_elem_def fge_def fgt_def fsub_def Let_def)
  have "map Not (ids2_mask [Fin 0] [Fin 1] (direct_stage (Phi e) [Fin 0] [Fin 1])) = [True]"
    by (simp add: ids2_mask_single not_in_ids2_0_1)
  then show ?thesis
    by (simp add: direct_stage_single d get_logdelta_single not_in_ids2_0_1)
qed

theorem direct_result_overwritten_witness:
  "0 < Phi ext_ref 1 - Phi ext_ref 0 \<and>
   direct_stage Phi_ref [Fin 0] [Fin 1] = [Fin (ln (1 / 4))] \<and>
   get_logdelta ext_ref [Fin 0] [Fin 1] = [lower_tail (\<lambda>t. Fin (ln (Phi_ref t))) (Fin 0) (Fin 1)]"
  using direct_result_overwritten [of ext_ref] by (simp add: Phi_ref_vals)

text \<open>
  C5. The claim is that \<open>get_logdelta(a, b)\<close> equals \<open>get_logdelta(-b, -a)\<close>. For the
  bounds -1 and 0 the code returns NaN, and for the reflected bounds 0 and 1 it
  returns a number or \<open>-inf\<close>, for every log-CDF service whose values at -1, 0 and 1
  are ordered and whose value at 0 is a number.
\<close>

theorem get_logdelta_not_symmetric:
  assumes "Phi e 0 - Phi e (- 1) \<le> 1" and "flt (logPhi e 0) (logPhi e 1)"
    and "fle (logPhi e (- 1)) (logPhi e 0)" and "logPhi e 0 \<noteq> NInf"
  shows "fle (Fin (- 1)) (Fin 0) \<and>
         get_logdelta e [Fin (- 1)] [Fin 0] \<noteq> get_logdelta e [fneg (Fin 0)] [fneg (Fin (- 1))]"
proof -
  have "lower_tail (logPhi e) (Fin 0) (Fin 1) \<noteq> NaN"
    using assms(2,3,4)
    by (cases "logPhi e 0"; cases "logPhi e (- 1)"; cases "logPhi e 1")
      (simp_all add: lower_tail_def fsub_def)
  then show ?thesis
    using get_logdelta_m1_0 [OF assms(1,2)]
    by (simp add: get_logdelta_single not_in_ids2_0_1)
qed

theorem get_logdelta_not_symmetric_witness:
  "Phi ext_ref 0 - Phi ext_ref (- 1) \<le> 1 \<and> flt (logPhi ext_ref 0) (logPhi ext_ref 1) \<and>
   fle (logPhi ext_ref (- 1)) (logPhi ext_ref 0) \<and> logPhi ext_ref 0 \<noteq> NInf \<and>
   get_logdelta ext_ref [Fin (- 1)] [Fin 0] \<noteq> get_logdelta ext_ref [fneg (Fin 0)] [fneg (Fin (- 1))]"
  using get_logdelta_not_symmetric [of ext_ref] by (simp add: Phi_ref_vals)

lemma upper_tail_same: "L (- t) = Fin l \<Longrightarrow> upper_tail L (Fin t) (Fin t) = NInf"
  by (simp add: upper_tail_def fsub_def)

lemma lower_tail_same: "L (- t) = Fin l \<Longrightarrow> lower_tail L (Fin t) (Fin t) = NInf"
  by (simp add: lower_tail_def fsub_def)

text \<open>
  Where the log-CDF is not a finite number (\<open>-inf\<close> or NaN out of range), both tail
  formulas are NaN: \<open>-inf - (-inf)\<close> is NaN.
\<close>

lemma tails_out_of_range:
  "\<forall>l. L (- t) \<noteq> Fin l \<Longrightarrow>
   upper_tail L (Fin t) (Fin t) = NaN \<and> lower_tail L (Fin t) (Fin t) = NaN"
  by (cases "L (- t)") (simp_all add: upper_tail_def lower_tail_def fsub_def)

lemma logPhi_ovf: "logPhi ext_ovf (- (10 ^ 160)) = NInf"
proof -
  have "(10::real) ^ 155 < 10 ^ 160"
    by (rule power_strict_increasing) simp_all
  then show ?thesis
    by (simp add: ext_ovf_def)
qed

text \<open>
  C6, as amended. At every index where both bounds are the same finite number \<open>t\<close>
  and the log-CDF service returns a finite number at \<open>-t\<close>, \<open>get_logdelta\<close>
  returns \<open>-inf\<close>: both tail formulas are a finite number plus \<open>log1p(-exp(0))\<close>.
\<close>

theorem get_logdelta_degenerate:
  "length a = length b \<Longrightarrow> i < length a \<Longrightarrow> a ! i = Fin t \<Longrightarrow> b ! i = Fin t \<Longrightarrow>
   logPhi e (- t) = Fin l \<Longrightarrow> get_logdelta e a b ! i = NInf"
  by (simp add: nth_get_logdelta upper_tail_same lower_tail_same)

theorem get_logdelta_degenerate_witness:
  "logPhi ext_ref (- 50) = Fin (ln (1 / 102)) \<and>
   get_logdelta ext_ref [Fin 2, Fin 50] [Fin 3, Fin 50] ! 1 = NInf"
proof -
  have l: "logPhi ext_ref (- 50) = Fin (ln (1 / 102))"
    by (simp add: Phi_ref_def)
  from get_logdelta_degenerate [of "[Fin 2, Fin 50]" "[Fin 3, Fin 50]" 1 50 ext_ref, OF _ _ _ _ l]
  have "get_logdelta ext_ref [Fin 2, Fin 50] [Fin 3, Fin 50] ! 1 = NInf"
    by simp
  with l show ?thesis
    by blast
qed

text \<open>
  C6, as stated, fails: the claim covers every finite bound. With both bounds at
  \<open>10 ^ 160\<close>, where the log-CDF is out of range, the element is not eligible for the
  direct computation, \<open>ids3\<close> selects it, and the lower-tail formula gives NaN.
\<close>

theorem get_logdelta_degenerate_out_of_range:
  "get_logdelta ext_ovf [Fin (10 ^ 160)] [Fin (10 ^ 160)] = [NaN]"
  using tails_out_of_range [of "logPhi ext_ovf" "10 ^ 160"] logPhi_ovf
  by (simp add: get_logdelta_single)

section \<open>The log density\<close>

text \<open>
  C7. At every index, \<open>log_prob\<close> is \<open>-inf\<close> when the standardized value is below
  \<open>a\<close> or above \<open>b\<close>, and otherwise the standard normal log density at the
  standardized value, minus \<open>get_logdelta(a, b)\<close>, minus \<open>log(scale)\<close>. The boundaries
  are inside: the two comparisons are strict.
\<close>

theorem log_prob_elementwise:
  assumes "length val = length a" "length b = length a" "length loc = length a"
    "length scale = length a" "i < length a"
  shows "log_prob e val a b loc scale ! i =
     (let vs = fdiv (fsub (val ! i) (loc ! i)) (scale ! i)
      in if flt vs (a ! i) \<or> fgt vs (b ! i) then NInf
         else fsub (fsub (snd_log_prob vs) (get_logdelta e a b ! i)) (flog (scale ! i)))"
  using assms by (simp add: log_prob_def Let_def nth_assign)

theorem log_prob_elementwise_witness:
  "log_prob ext_ref [Fin 5] [Fin 0] [Fin 1] [Fin 0] [Fin 1] ! 0 = NInf \<and>
   log_prob ext_ref [Fin 1] [Fin 0] [Fin 1] [Fin 0] [Fin 1] ! 0 =
     fsub (fsub (snd_log_prob (Fin 1)) (get_logdelta ext_ref [Fin 0] [Fin 1] ! 0)) (flog (Fin 1))"
  using log_prob_elementwise [of "[Fin 5]" "[Fin 0]" "[Fin 1]" "[Fin 0]" "[Fin 1]" 0 ext_ref]
    log_prob_elementwise [of "[Fin 1]" "[Fin 0]" "[Fin 1]" "[Fin 0]" "[Fin 1]" 0 ext_ref]
  by (simp add: fsub_def fgt_def Let_def)

section \<open>The constructor\<close>

lemma TLR_init_fields:
  "TLR_init e ys Xs l r = Inr m \<Longrightarrow>
   y m = ys \<and> X m = Xs \<and> l_thred m = (case l of None \<Rightarrow> NInf | Some v \<Rightarrow> v) \<and>
   r_thred m = (case r of None \<Rightarrow> Fin 100 | Some v \<Rightarrow> v)"
  by (auto simp: TLR_init_def Let_def split: sum.splits)

text \<open>The fallback of line 59 is the Python integer 1.\<close>

lemma init_element_no_interior:
  "select zz yy0 = [] \<Longrightarrow> snd (init_element e yy0 XX0 zz) = PyInt 1"
  by (simp add: init_element_def Let_def)

lemma TLR_init_ref:
  "TLR_init ext_ref [[Fin 1, Fin 1]] [[[Fin 1], [Fin 1]]] (Some (Fin 0)) None = Inr m_ref"
  by (simp add: TLR_init_def indicator_def assign_def init_element_def select_def
      sigma_parameter_def Let_def lstsq_ref_def dot_def fsum_def matvec_def fsub_def m_ref_def)

lemma assign_all:
  "(\<forall>v\<in>set yr. f v) \<Longrightarrow>
   assign (map f yr) (map (\<lambda>_. c) yr) (map (\<lambda>_. d) yr) = map (\<lambda>_. c) yr"
  by (induction yr) (simp_all add: assign_def)

text \<open>When every observation is at or below the lower threshold, all are left-censored.\<close>

lemma indicator_all_left:
  assumes "\<forall>r\<in>set ys. \<forall>v\<in>set r. fle v lt"
  shows "indicator ys (Some lt) None = map (map (\<lambda>_. Fin (- 1))) ys"
  using assms by (induction ys) (simp_all add: indicator_def Let_def assign_all)

lemma select_none: "select (map (\<lambda>_. 0::int) yr) xs = []"
  by (induction yr arbitrary: xs) (simp_all add: select_def zip_Cons1 split: list.splits)

lemma inits_all_int:
  "list_all pynum_is_int
     (map snd (map (\<lambda>(yy, XX, zz). init_element e yy XX zz)
        (zip ys (zip Xs (map (\<lambda>r. map (\<lambda>_. 0::int) r) ys)))))"
proof -
  have "\<And>yy XX zz. (yy, XX, zz) \<in> set (zip ys (zip Xs (map (\<lambda>r. map (\<lambda>_. 0::int) r) ys)))
      \<Longrightarrow> snd (init_element e yy XX zz) = PyInt 1"
  proof -
    fix yy XX zz
    assume "(yy, XX, zz) \<in> set (zip ys (zip Xs (map (\<lambda>r. map (\<lambda>_. 0::int) r) ys)))"
    then have "(XX, zz) \<in> set (zip Xs (map (\<lambda>r. map (\<lambda>_. 0::int) r) ys))"
      by (rule set_zip_rightD)
    then have "zz \<in> set (map (\<lambda>r. map (\<lambda>_. 0::int) r) ys)"
      by (rule set_zip_rightD)
    then obtain r :: vec where "zz = map (\<lambda>_. 0::int) r"
      by auto
    then show "snd (init_element e yy XX zz) = PyInt 1"
      by (simp add: init_element_no_interior select_none)
  qed
  then show ?thesis
    by (auto simp: list_all_iff)
qed

text \<open>
  C8. The claim is that construction does not fail when a batch element has no interior
  observation. For a non-empty batch in which no element has one (every observation is
  at or below the lower threshold 0, so it is censored) every residual variance is the
  Python integer 1 of the fallback, \<open>torch.tensor\<close> of the list is an integer tensor,
  and \<open>nn.Parameter\<close> raises: the constructor and \<open>torch_TLR\<close> end in the error,
  whatever the collaborators are.
\<close>

theorem construction_fails_without_interior:
  assumes "ys \<noteq> []" and "length ys \<le> length Xs"
    and "\<forall>r\<in>set ys. \<forall>v\<in>set r. fle v (Fin 0)"
  shows "TLR_init e ys Xs (Some (Fin 0)) None = Inl RequiresGradDtype \<and>
         torch_TLR e ys Xs lr max_iter tol = Inl RequiresGradDtype"
proof -
  have z: "indicator ys (Some (Fin 0)) None = map (map (\<lambda>_. Fin (- 1))) ys"
    using assms(3) by (rule indicator_all_left)
  have mid: "map (map (\<lambda>v. if feq v (Fin 0) then 1 else (0::int))) (map (map (\<lambda>_. Fin (- 1))) ys)
      = map (\<lambda>r. map (\<lambda>_. 0::int) r) ys"
    by (simp add: comp_def)
  have ne: "map snd (map (\<lambda>(yy, XX, zz). init_element e yy XX zz)
        (zip ys (zip Xs (map (\<lambda>r. map (\<lambda>_. 0::int) r) ys)))) \<noteq> []"
    using assms(1,2) by (cases ys; cases Xs) simp_all
  have "TLR_init e ys Xs (Some (Fin 0)) None = Inl RequiresGradDtype"
    unfolding TLR_init_def Let_def z mid
    using ne inits_all_int [of e ys Xs] by (simp add: sigma_parameter_def)
  then show ?thesis
    by (simp add: torch_TLR_def torch_TLR_trace_def)
qed

theorem construction_fails_without_interior_witness:
  "TLR_init ext_ref [[Fin 0, Fin 0]] [[[Fin 1], [Fin 1]]] (Some (Fin 0)) None
     = Inl RequiresGradDtype \<and>
   torch_TLR ext_ref [[Fin 0, Fin 0]] [[[Fin 1], [Fin 1]]] (Fin (1 / 10)) 1000 (Fin (1 / 100000))
     = Inl RequiresGradDtype"
  using construction_fails_without_interior [of "[[Fin 0, Fin 0]]" "[[[Fin 1], [Fin 1]]]" ext_ref]
  by simp

section \<open>The loop\<close>

lemma iteration_fst: "fst (iteration e s) = loss_of e (solver s)"
  by (simp add: iteration_def Let_def split: prod.splits)

lemma iteration_best_loss:
  "best_loss (snd (iteration e s)) =
     (if flt (loss_of e (solver s)) (best_loss s) then loss_of e (solver s) else best_loss s)"
  by (simp add: iteration_def Let_def split: prod.splits)

lemma iteration_data:
  "y (solver (snd (iteration e s))) = y (solver s)"
  "l_thred (solver (snd (iteration e s))) = l_thred (solver s)"
  "r_thred (solver (snd (iteration e s))) = r_thred (solver s)"
  by (simp_all add: iteration_def Let_def split: prod.splits)

text \<open>Every entry of a run follows from the state before it.\<close>

lemma run_follows:
  "i < length (run e tol n s) \<Longrightarrow>
   follows e ((s # map snd (run e tol n s)) ! i) (run e tol n s ! i)"
proof (induction n arbitrary: s i)
  case 0
  then show ?case by simp
next
  case (Suc n)
  obtain l s2 where it: "iteration e s = (l, s2)"
    by (cases "iteration e s")
  have l: "l = loss_of e (solver s)"
    using iteration_fst [of e s] it by simp
  show ?case
  proof (cases "fle (fabs (fsub l (prev_loss s2))) tol")
    case True
    with Suc.prems it l show ?thesis
      by (simp add: follows_def)
  next
    case False
    define s3 where "s3 = s2\<lparr>prev_loss := l\<rparr>"
    have r: "run e tol (Suc n) s = (l, s3) # run e tol n s3"
      using it False by (simp add: s3_def Let_def)
    show ?thesis
    proof (cases i)
      case 0
      with r it l show ?thesis
        by (simp add: follows_def s3_def)
    next
      case (Suc j)
      with Suc.prems r have "j < length (run e tol n s3)"
        by simp
      from Suc.IH [OF this] Suc r show ?thesis
        by simp
    qed
  qed
qed

lemma run_nonempty: "0 < length (run e tol (Suc n) s)"
  by (simp add: Let_def split: prod.splits)

lemma follows_best_loss:
  "follows e s p \<Longrightarrow>
   best_loss (snd p) = (if flt (fst p) (best_loss s) then fst p else best_loss s)"
  by (auto simp: follows_def iteration_best_loss)

lemma follows_data:
  "follows e s p \<Longrightarrow> y (solver (snd p)) = y (solver s) \<and>
     l_thred (solver (snd p)) = l_thred (solver s) \<and> r_thred (solver (snd p)) = r_thred (solver s)"
  by (auto simp: follows_def iteration_data)

lemma flt_imp_fle: "flt a b \<Longrightarrow> fle a b"
  by (cases a; cases b) simp_all

lemma fle_refl: "\<not> isnan a \<Longrightarrow> fle a a"
  by (cases a) simp_all

lemma fle_trans: "fle a b \<Longrightarrow> fle b c \<Longrightarrow> fle a c"
  by (cases a; cases b; cases c) simp_all

lemma flt_not_nan: "flt a b \<Longrightarrow> \<not> isnan a"
  by (cases a; cases b) simp_all

lemma run_step_best_loss:
  assumes "i < length (run e tol n s)"
  shows "best_loss ((s # map snd (run e tol n s)) ! Suc i) =
     (if flt (fst (run e tol n s ! i)) (best_loss ((s # map snd (run e tol n s)) ! i))
      then fst (run e tol n s ! i) else best_loss ((s # map snd (run e tol n s)) ! i))"
  using follows_best_loss [OF run_follows [OF assms]] assms by simp

text \<open>The best loss starts at \<open>inf\<close> and is never NaN: a NaN loss is below nothing.\<close>

lemma run_best_not_nan:
  "\<not> isnan (best_loss s) \<Longrightarrow> i \<le> length (run e tol n s) \<Longrightarrow>
   \<not> isnan (best_loss ((s # map snd (run e tol n s)) ! i))"
proof (induction i)
  case 0
  then show ?case by simp
next
  case (Suc i)
  then have i: "i < length (run e tol n s)" by simp
  from Suc have ih: "\<not> isnan (best_loss ((s # map snd (run e tol n s)) ! i))" by simp
  show ?case
    using run_step_best_loss [OF i] ih flt_not_nan by (auto split: if_splits)
qed

lemma run_best_step_le:
  assumes "\<not> isnan (best_loss s)" and "i < length (run e tol n s)"
  shows "fle (best_loss ((s # map snd (run e tol n s)) ! Suc i))
             (best_loss ((s # map snd (run e tol n s)) ! i))"
proof -
  have "\<not> isnan (best_loss ((s # map snd (run e tol n s)) ! i))"
    using run_best_not_nan [OF assms(1), of i e tol n] assms(2) by simp
  then show ?thesis
    using run_step_best_loss [OF assms(2)] by (auto simp: flt_imp_fle fle_refl)
qed

lemma run_best_mono:
  assumes "\<not> isnan (best_loss s)" and "i \<le> j" and "j \<le> length (run e tol n s)"
  shows "fle (best_loss ((s # map snd (run e tol n s)) ! j))
             (best_loss ((s # map snd (run e tol n s)) ! i))"
  using assms(2,3)
proof (induction j rule: dec_induct)
  case base
  then show ?case
    using run_best_not_nan [OF assms(1), of i e tol n] by (simp add: fle_refl)
next
  case (step k)
  then have k: "k < length (run e tol n s)" by simp
  from step have "fle (best_loss ((s # map snd (run e tol n s)) ! k))
             (best_loss ((s # map snd (run e tol n s)) ! i))" by simp
  with run_best_step_le [OF assms(1) k] show ?case
    by (rule fle_trans)
qed

lemma run_data:
  "i \<le> length (run e tol n s) \<Longrightarrow>
   y (solver ((s # map snd (run e tol n s)) ! i)) = y (solver s) \<and>
   l_thred (solver ((s # map snd (run e tol n s)) ! i)) = l_thred (solver s) \<and>
   r_thred (solver ((s # map snd (run e tol n s)) ! i)) = r_thred (solver s)"
proof (induction i)
  case 0
  then show ?case by simp
next
  case (Suc i)
  then have i: "i < length (run e tol n s)" by simp
  from follows_data [OF run_follows [OF i]] Suc i show ?case
    by simp
qed

lemma trace_Inr:
  "torch_TLR_trace e ys Xs lr max_iter tol = Inr t \<Longrightarrow>
   \<exists>m. TLR_init e ys Xs (Some (Fin 0)) None = Inr m \<and>
       t = (initial e m lr max_iter, run e tol max_iter (initial e m lr max_iter))"
  by (auto simp: torch_TLR_trace_def Let_def split: sum.splits)

lemma trace_ref:
  "torch_TLR_trace ext_ref [[Fin 1, Fin 1]] [[[Fin 1], [Fin 1]]] (Fin (1 / 10)) 1
     (Fin (1 / 100000)) = Inr t_ref"
  by (simp add: torch_TLR_trace_def TLR_init_ref t_ref_def s_ref_def Let_def)

lemma length_t_ref: "length (snd t_ref) = 1"
  by (simp add: t_ref_def Let_def split: prod.splits)

section \<open>The driver\<close>

lemma states_t_ref_0: "solver (states t_ref ! 0) = m_ref"
  by (simp add: states_def t_ref_def s_ref_def initial_def)

text \<open>
  C9. Along a run of \<open>torch_TLR\<close>, the best loss after an iteration is the loss of the
  iteration when that loss is strictly below the best loss before it, and the best loss
  before it otherwise; and the best loss of a later state is never above the best loss
  of an earlier one.
\<close>

theorem best_loss_monotone:
  assumes "torch_TLR_trace e ys Xs lr max_iter tol = Inr t"
  shows "(\<forall>i<length (snd t).
            best_loss (states t ! Suc i) =
              (if flt (fst (snd t ! i)) (best_loss (states t ! i)) then fst (snd t ! i)
               else best_loss (states t ! i))) \<and>
         (\<forall>i j. i \<le> j \<and> j < length (states t) \<longrightarrow>
            fle (best_loss (states t ! j)) (best_loss (states t ! i)))"
proof -
  from trace_Inr [OF assms] obtain m where
    t: "t = (initial e m lr max_iter, run e tol max_iter (initial e m lr max_iter))"
    by blast
  have nn: "\<not> isnan (best_loss (initial e m lr max_iter))"
    by (simp add: initial_def)
  show ?thesis
    unfolding t states_def fst_conv snd_conv
    using run_step_best_loss [of _ e tol max_iter "initial e m lr max_iter"]
      run_best_mono [OF nn, of _ _ e tol max_iter]
    by auto
qed

theorem best_loss_monotone_witness:
  "torch_TLR_trace ext_ref [[Fin 1, Fin 1]] [[[Fin 1], [Fin 1]]] (Fin (1 / 10)) 1
     (Fin (1 / 100000)) = Inr t_ref \<and>
   best_loss (states t_ref ! 0) = PInf \<and>
   best_loss (states t_ref ! Suc 0) =
     (if flt (fst (snd t_ref ! 0)) PInf then fst (snd t_ref ! 0) else PInf) \<and>
   fle (best_loss (states t_ref ! Suc 0)) (best_loss (states t_ref ! 0))"
proof -
  have b0: "best_loss (states t_ref ! 0) = PInf"
    by (simp add: states_def t_ref_def s_ref_def initial_def)
  have l: "length (states t_ref) = 2"
    by (simp add: states_def length_t_ref)
  note m = best_loss_monotone [OF trace_ref]
  have s: "best_loss (states t_ref ! Suc 0) =
     (if flt (fst (snd t_ref ! 0)) PInf then fst (snd t_ref ! 0) else PInf)"
    using m length_t_ref b0 by simp
  have "fle (best_loss (states t_ref ! Suc 0)) (best_loss (states t_ref ! 0))"
    using m l by simp
  with trace_ref b0 s show ?thesis
    by blast
qed

text \<open>
  C2, as amended. At every iteration of a run of \<open>torch_TLR\<close>, the loss is minus the
  sum over the batch elements of the value of \<open>forward\<close> at the parameters of that
  iteration, divided by the batch size \<open>y.shape[0]\<close>; and \<open>forward\<close> is the plain sum
  of the log densities of each batch element, with no normalisation.
\<close>

theorem loss_divides_by_batch_size:
  assumes "torch_TLR_trace e ys Xs lr max_iter tol = Inr t" and "i < length (snd t)"
  shows "fst (snd t ! i) =
           fdiv (fmul (Fin (- 1)) (fsum (forward e (solver (states t ! i)))))
             (Fin (real (length ys))) \<and>
         forward e (solver (states t ! i)) = map fsum (log_probs e (solver (states t ! i)))"
proof -
  from trace_Inr [OF assms(1)] obtain m where
    m: "TLR_init e ys Xs (Some (Fin 0)) None = Inr m" and
    t: "t = (initial e m lr max_iter, run e tol max_iter (initial e m lr max_iter))"
    by blast
  let ?s = "initial e m lr max_iter"
  have i: "i < length (run e tol max_iter ?s)"
    using assms(2) t by simp
  have "fst (run e tol max_iter ?s ! i) = loss_of e (solver ((?s # map snd (run e tol max_iter ?s)) ! i))"
    using run_follows [OF i] by (simp add: follows_def)
  moreover have "y (solver ((?s # map snd (run e tol max_iter ?s)) ! i)) = ys"
    using run_data [of i e tol max_iter ?s] i TLR_init_fields [OF m] by (simp add: initial_def)
  ultimately show ?thesis
    by (simp add: t states_def loss_of_def forward_def)
qed

theorem loss_divides_by_batch_size_witness:
  "torch_TLR_trace ext_ref [[Fin 1, Fin 1]] [[[Fin 1], [Fin 1]]] (Fin (1 / 10)) 1
     (Fin (1 / 100000)) = Inr t_ref \<and> 0 < length (snd t_ref) \<and>
   fst (snd t_ref ! 0) = fdiv (fmul (Fin (- 1)) (fsum (forward ext_ref m_ref))) (Fin 1)"
proof -
  have l: "0 < length (snd t_ref)"
    by (simp add: length_t_ref)
  from loss_divides_by_batch_size [OF trace_ref l]
  have "fst (snd t_ref ! 0) = fdiv (fmul (Fin (- 1)) (fsum (forward ext_ref m_ref))) (Fin 1)"
    by (simp add: states_t_ref_0)
  with trace_ref l show ?thesis
    by blast
qed

lemma get_logdelta_map2:
  assumes "length a = length b"
  shows "get_logdelta e a b =
     map2 (\<lambda>u v. if in_ids2 (Phi e) u v then upper_tail (logPhi e) u v
                  else lower_tail (logPhi e) u v) a b"
  using assms by (intro nth_equalityI) (simp_all add: nth_get_logdelta)

lemma Phi_ref_99: "Phi_ref (- 99) = 1 / 200"
  by (simp add: Phi_ref_def)

lemma not_in_ids2_m1_99: "\<not> in_ids2 P (Fin (- 1)) (Fin 99)"
  by (simp add: in_ids2_def fge_def)

lemma ln_prod_ref: "ln (3 / 4) + ln (149 / 150) = ln (149 / 200 :: real)"
proof -
  have "ln ((3 / 4) * (149 / 150)) = ln (3 / 4) + ln (149 / 150 :: real)"
    by (rule ln_mult_pos) simp_all
  moreover have "(3 / 4) * (149 / 150) = (149 / 200 :: real)"
    by simp
  ultimately show ?thesis
    by simp
qed

lemma lower_ref:
  "lower_tail (\<lambda>t. Fin (ln (Phi_ref t))) (Fin (- 1)) (Fin 99) = Fin (ln (149 / 200))"
proof -
  have "exp (ln (1 / 200) - ln (3 / 4)) = (1 / 150 :: real)"
    by (simp add: exp_diff)
  then have e: "1 - exp (ln (1 / 200) - ln (3 / 4)) = (149 / 150 :: real)"
    by simp
  have "lower_tail (\<lambda>t. Fin (ln (Phi_ref t))) (Fin (- 1)) (Fin 99) =
      Fin (ln (3 / 4) + ln (1 - exp (ln (1 / 200) - ln (3 / 4))))"
    using e by (simp add: lower_tail_def fsub_def Phi_ref_vals Phi_ref_99)
  then show ?thesis
    by (simp only: e ln_prod_ref)
qed

lemma log_probs_ref:
  "log_probs ext_ref m_ref =
     [[Fin (- ln (sqrt (2 * pi)) - ln (149 / 200)), Fin (- ln (sqrt (2 * pi)) - ln (149 / 200))]]"
  by (simp add: m_ref_def log_probs_def shape1_def matvec_def dot_def fsum_def fsub_def Let_def
     log_prob_def snd_log_prob_def numeral_2_eq_2 get_logdelta_map2 not_in_ids2_m1_99 lower_ref
     assign_def fgt_def)

lemma c_ref_neg: "- ln (sqrt (2 * pi)) - ln (149 / 200 :: real) < 0"
proof -
  have "(200 / 149 :: real) < 2" by simp
  moreover have "(2 :: real) \<le> sqrt (2 * pi)"
  proof -
    have "(4 :: real) \<le> 2 * pi" using pi_ge_two by simp
    then have "sqrt 4 \<le> sqrt (2 * pi)" by (simp only: real_sqrt_le_iff)
    then show ?thesis by simp
  qed
  ultimately have "(200 / 149 :: real) < sqrt (2 * pi)" by simp
  then have "ln (200 / 149 :: real) < ln (sqrt (2 * pi))"
    by (subst ln_less_cancel_iff) simp_all
  moreover have "ln (149 / 200 :: real) = - ln (200 / 149)"
  proof -
    have "ln (inverse (200 / 149 :: real)) = - ln (200 / 149)"
      by (rule ln_inverse)
    then show ?thesis by simp
  qed
  ultimately show ?thesis by simp
qed

lemma run_one: "map fst (run e tol (Suc 0) s) = [loss_of e (solver s)]"
proof -
  obtain l s2 where it: "iteration e s = (l, s2)"
    by (cases "iteration e s")
  then have "l = loss_of e (solver s)"
    using iteration_fst [of e s] by simp
  with it show ?thesis
    by (simp add: Let_def)
qed

text \<open>
  C2, as stated, fails: the claim divides by the total observation count, batch size
  times observations per element. For one batch element with two observations that
  count is 2, and the loss of the first iteration is not the negated sum divided by 2.
\<close>

theorem loss_not_per_observation:
  "torch_TLR_trace ext_ref [[Fin 1, Fin 1]] [[[Fin 1], [Fin 1]]] (Fin (1 / 10)) 1
     (Fin (1 / 100000)) = Inr t_ref \<and>
   solver (states t_ref ! 0) = m_ref \<and>
   real (length (y m_ref) * shape1 (y m_ref)) = 2 \<and>
   map fst (snd t_ref) \<noteq>
     [fdiv (fmul (Fin (- 1)) (fsum (forward ext_ref m_ref)))
        (Fin (real (length (y m_ref) * shape1 (y m_ref))))]"
proof -
  define c :: real where "c = - ln (sqrt (2 * pi)) - ln (149 / 200)"
  have c: "c < 0"
    using c_ref_neg by (simp add: c_def)
  have f: "forward ext_ref m_ref = [Fin (c + c)]"
    by (simp add: forward_def log_probs_ref fsum_def c_def)
  have n: "real (length (y m_ref) * shape1 (y m_ref)) = 2"
    by (simp add: m_ref_def shape1_def)
  have "snd t_ref = run ext_ref (Fin (1 / 100000)) (Suc 0) s_ref"
    by (simp add: t_ref_def)
  then have "map fst (snd t_ref) = [loss_of ext_ref (solver s_ref)]"
    by (simp only: run_one)
  moreover have "solver s_ref = m_ref"
    by (simp add: s_ref_def initial_def)
  moreover have "loss_of ext_ref m_ref = Fin (- (c + c))"
    by (simp add: loss_of_def f fsum_def) (simp add: m_ref_def)
  ultimately have l: "map fst (snd t_ref) = [Fin (- (c + c))]"
    by simp
  have "fdiv (fmul (Fin (- 1)) (fsum (forward ext_ref m_ref))) (Fin 2) = Fin (- (c + c) / 2)"
    by (simp add: f fsum_def)
  then have "fdiv (fmul (Fin (- 1)) (fsum (forward ext_ref m_ref)))
        (Fin (real (length (y m_ref) * shape1 (y m_ref)))) = Fin (- (c + c) / 2)"
    by (simp only: n)
  moreover have "- (c + c) \<noteq> - (c + c) / 2"
    using c by simp
  ultimately have "map fst (snd t_ref) \<noteq>
     [fdiv (fmul (Fin (- 1)) (fsum (forward ext_ref m_ref)))
        (Fin (real (length (y m_ref) * shape1 (y m_ref))))]"
    using l by simp
  with trace_ref states_t_ref_0 n show ?thesis
    by blast
qed

text \<open>
  C10. In every state of a run of \<open>torch_TLR\<close>, whatever the arguments of the call,
  the lower threshold of the model is 0 and the upper threshold is the default 100.
\<close>

theorem thresholds_fixed:
  assumes "torch_TLR_trace e ys Xs lr max_iter tol = Inr t" and "i < length (states t)"
  shows "l_thred (solver (states t ! i)) = Fin 0 \<and> r_thred (solver (states t ! i)) = Fin 100"
proof -
  from trace_Inr [OF assms(1)] obtain m where
    m: "TLR_init e ys Xs (Some (Fin 0)) None = Inr m" and
    t: "t = (initial e m lr max_iter, run e tol max_iter (initial e m lr max_iter))"
    by blast
  let ?s = "initial e m lr max_iter"
  have "i \<le> length (run e tol max_iter ?s)"
    using assms(2) t by (simp add: states_def)
  from run_data [OF this] TLR_init_fields [OF m] show ?thesis
    by (simp add: t states_def initial_def)
qed

theorem thresholds_fixed_witness:
  "torch_TLR_trace ext_ref [[Fin 1, Fin 1]] [[[Fin 1], [Fin 1]]] (Fin (1 / 10)) 1
     (Fin (1 / 100000)) = Inr t_ref \<and> length (states t_ref) = 2 \<and>
   l_thred (solver (states t_ref ! 1)) = Fin 0 \<and> r_thred (solver (states t_ref ! 1)) = Fin 100"
proof -
  have l: "length (states t_ref) = 2"
    by (simp add: states_def length_t_ref)
  then have "1 < length (states t_ref)" by simp
  from thresholds_fixed [OF trace_ref this] trace_ref l show ?thesis
    by blast
qed

end
